theory Spec2Isabelle
  imports Complex_Main "HOL-Library.FSet" "HOL-Library.AList"
begin

section \<open>Data model\<close>

text \<open>
  NextStep is a study tracker with two front ends over the same data: a terminal menu
  (\<^verbatim>\<open>NextStep_CLI.py\<close>) and a web dashboard (\<^verbatim>\<open>NextStep_Streamlit.py\<close>).
  Definitions taken from the terminal front end carry the prefix \<open>cli_\<close> where the web
  front end has a function of the same name, which then carries the prefix \<open>web_\<close>.

  A \<^verbatim>\<open>datetime.date\<close> is the number of its day, a naive \<^verbatim>\<open>datetime.datetime\<close> is
  its number of microseconds (both counted from the same origin), and a Python integer is
  an \<open>int\<close>. Python floats are idealised as reals: rounding is not modelled, so two
  scores that are equal here can differ in the last digit in the code, which then ranks
  the two subjects by that digit. The clock
  is an argument: \<open>today\<close> for \<^verbatim>\<open>datetime.date.today()\<close> and \<open>now\<close> for
  \<^verbatim>\<open>datetime.datetime.now()\<close>; the readings taken during one call are one instant.
  Timestamps of log entries are the parsed values of their ISO strings, and the bounds of
  Python's calendar (the years 1 to 9999) are not modelled.
\<close>

type_synonym date = int
type_synonym datetime = int

definition us_per_day :: int where
  "us_per_day = 86400000000"

text \<open>\<^verbatim>\<open>dt.date()\<close>: the day a timestamp falls on.\<close>

definition date_of :: "datetime \<Rightarrow> date" where
  "date_of ts = ts div us_per_day"

text \<open>\<^verbatim>\<open>(a - b).days\<close> of a difference given in microseconds: Python normalises a
  \<^verbatim>\<open>timedelta\<close> so that \<^verbatim>\<open>days\<close> is the floor.\<close>

definition timedelta_days :: "int \<Rightarrow> int" where
  "timedelta_days us = us div us_per_day"

text \<open>One value of the subjects dictionary: \<^verbatim>\<open>{"confidence": ..., "exam_date": ...}\<close>,
  each \<^verbatim>\<open>None\<close> until set.\<close>

record subject_data =
  confidence :: "int option"
  exam_date :: "date option"

text \<open>The subjects dictionary. Python dictionaries keep insertion order, and the order
  decides ties in the ranking, so it is an association list.\<close>

type_synonym subject_store = "(string \<times> subject_data) list"

text \<open>One entry of \<^verbatim>\<open>session_log\<close>. The summary reads the rating with
  \<^verbatim>\<open>entry.get("effectiveness", 0)\<close>, so the key may be missing.\<close>

record session =
  subject :: string
  timestamp :: datetime
  task_type :: string
  duration_mins :: int
  effectiveness :: "int option"

record store =
  subjects :: subject_store
  session_log :: "session list"

text \<open>
  The ways a call ends without its result. \<open>IncompleteConfigurationError\<close> is the
  guard of Instant Mode, which prints a warning and returns; the others are the Python
  exceptions of the same name.
\<close>

datatype error =
  IncompleteConfigurationError
  | ValueError
  | IndexError
  | TypeError
  | EOFError
  | ZeroDivisionError

section \<open>Console input\<close>

text \<open>
  The terminal is the list of lines still to be typed; \<^verbatim>\<open>input()\<close> takes the first
  and raises \<^verbatim>\<open>EOFError\<close> when none is left. The string methods are modelled on ASCII.
  \<open>py_int\<close> is \<^verbatim>\<open>int(s)\<close>: blanks around the number (tab to carriage return, and
  the space; unlike \<^verbatim>\<open>strip()\<close>, not the separators 28 to 31), an optional sign, and
  decimal digits with single underscores between them. \<open>None\<close> stands for
  \<^verbatim>\<open>ValueError\<close>. Characters beyond ASCII are outside the model.
\<close>

definition is_space :: "char \<Rightarrow> bool" where
  "is_space c = (let n = (of_char c :: nat) in (9 \<le> n \<and> n \<le> 13) \<or> (28 \<le> n \<and> n \<le> 32))"

definition is_upper :: "char \<Rightarrow> bool" where
  "is_upper c = (let n = (of_char c :: nat) in 65 \<le> n \<and> n \<le> 90)"

definition is_lower :: "char \<Rightarrow> bool" where
  "is_lower c = (let n = (of_char c :: nat) in 97 \<le> n \<and> n \<le> 122)"

definition lower_char :: "char \<Rightarrow> char" where
  "lower_char c = (if is_upper c then char_of (of_char c + (32 :: nat)) else c)"

definition upper_char :: "char \<Rightarrow> char" where
  "upper_char c = (if is_lower c then char_of (of_char c - (32 :: nat)) else c)"

definition lower :: "string \<Rightarrow> string" where
  "lower s = map lower_char s"

definition strip :: "string \<Rightarrow> string" where
  "strip s = rev (dropWhile is_space (rev (dropWhile is_space s)))"

fun title_from :: "bool \<Rightarrow> string \<Rightarrow> string" where
  "title_from prev [] = []"
| "title_from prev (c # cs) =
     (if is_upper c \<or> is_lower c
      then (if prev then lower_char c else upper_char c) # title_from True cs
      else c # title_from False cs)"

definition title :: "string \<Rightarrow> string" where
  "title s = title_from False s"

definition is_int_space :: "char \<Rightarrow> bool" where
  "is_int_space c = (let n = (of_char c :: nat) in (9 \<le> n \<and> n \<le> 13) \<or> n = 32)"

definition digit_val :: "char \<Rightarrow> int option" where
  "digit_val c =
     (let n = (of_char c :: nat) in if 48 \<le> n \<and> n \<le> 57 then Some (int (n - 48)) else None)"

text \<open>The digits of a number; \<open>after_digit\<close> says that the character before was a digit,
  which an underscore and the end of the number need.\<close>

fun digits_val :: "int \<Rightarrow> bool \<Rightarrow> string \<Rightarrow> int option" where
  "digits_val acc after_digit [] = (if after_digit then Some acc else None)"
| "digits_val acc after_digit (c # cs) =
     (if c = CHR ''_'' then (if after_digit then digits_val acc False cs else None)
      else (case digit_val c of
              None \<Rightarrow> None
            | Some d \<Rightarrow> digits_val (10 * acc + d) True cs))"

definition py_int :: "string \<Rightarrow> int option" where
  "py_int s =
     (case rev (dropWhile is_int_space (rev (dropWhile is_int_space s))) of
        [] \<Rightarrow> None
      | c # cs \<Rightarrow>
          if c = CHR ''-'' then map_option uminus (digits_val 0 False cs)
          else if c = CHR ''+'' then digits_val 0 False cs
          else digits_val 0 False (c # cs))"

text \<open>\<^verbatim>\<open>while True: try: mins = int(input(...)); break; except ValueError: ...\<close>\<close>

fun ask_int :: "string list \<Rightarrow> error + (int \<times> string list)" where
  "ask_int [] = Inl EOFError"
| "ask_int (l # ls) = (case py_int l of Some n \<Rightarrow> Inr (n, ls) | None \<Rightarrow> ask_int ls)"

text \<open>The same loop with the range check of the effectiveness prompt.\<close>

fun ask_effectiveness :: "string list \<Rightarrow> error + (int \<times> string list)" where
  "ask_effectiveness [] = Inl EOFError"
| "ask_effectiveness (l # ls) =
     (case py_int l of
        Some e \<Rightarrow> if 1 \<le> e \<and> e \<le> 10 then Inr (e, ls) else ask_effectiveness ls
      | None \<Rightarrow> ask_effectiveness ls)"

text \<open>\<^verbatim>\<open>while energy not in ["low", "medium", "high"]: energy = input(...).strip().lower()\<close>\<close>

fun ask_energy :: "string list \<Rightarrow> error + (string \<times> string list)" where
  "ask_energy [] = Inl EOFError"
| "ask_energy (l # ls) =
     (let energy = lower (strip l)
      in if energy \<in> set [''low'', ''medium'', ''high''] then Inr (energy, ls)
         else ask_energy ls)"

text \<open>\<^verbatim>\<open>while subject not in subjects: subject = input(...).strip().title()\<close>\<close>

fun ask_subject :: "subject_store \<Rightarrow> string list \<Rightarrow> error + (string \<times> string list)" where
  "ask_subject subjs [] = Inl EOFError"
| "ask_subject subjs (l # ls) =
     (let subj = title (strip l)
      in if subj \<in> set (map fst subjs) then Inr (subj, ls) else ask_subject subjs ls)"

section \<open>Streak\<close>

text \<open>
  \<^verbatim>\<open>calculate_streak(dates_set)\<close> of the terminal front end: the loop
  \<^verbatim>\<open>for i in range(100)\<close> counts the days \<^verbatim>\<open>today - i\<close> found in the set and
  breaks at the first one missing.
\<close>

fun cli_streak_loop :: "int fset \<Rightarrow> date \<Rightarrow> nat list \<Rightarrow> nat \<Rightarrow> nat" where
  "cli_streak_loop dates_set today [] streak = streak"
| "cli_streak_loop dates_set today (i # rest) streak =
     (if (today - int i) |\<in>| dates_set
      then cli_streak_loop dates_set today rest (streak + 1)
      else streak)"

definition cli_calculate_streak :: "date \<Rightarrow> int fset \<Rightarrow> nat" where
  "cli_calculate_streak today dates_set =
     (if dates_set = {||} then 0 else cli_streak_loop dates_set today [0..<100] 0)"

text \<open>
  \<^verbatim>\<open>calculate_streak(dates_set)\<close> of the web front end:
  \<^verbatim>\<open>while (today - timedelta(days=streak)) in dates_set: streak += 1\<close>. The loop has no
  bound of its own; it ends because the set is finite, which is the termination proof.
\<close>

function web_streak_loop :: "int fset \<Rightarrow> date \<Rightarrow> nat \<Rightarrow> nat" where
  "web_streak_loop dates_set today streak =
     (if (today - int streak) |\<in>| dates_set
      then web_streak_loop dates_set today (streak + 1)
      else streak)"
  by pat_completeness auto
termination
proof (relation "measure (\<lambda>(S, today, streak). card {d \<in> fset S. d \<le> today - int streak})")
  show "wf (measure (\<lambda>(S, today, streak). card {d \<in> fset S. d \<le> today - int streak}))"
    by simp
next
  fix dates_set :: "int fset" and today :: int and streak :: nat
  assume mem: "today - int streak |\<in>| dates_set"
  let ?A = "{d \<in> fset dates_set. d \<le> today - int (streak + 1)}"
  let ?B = "{d \<in> fset dates_set. d \<le> today - int streak}"
  have fin: "finite ?B" by simp
  have "today - int streak \<in> ?B" using mem by simp
  moreover have "today - int streak \<notin> ?A" by simp
  moreover have "?A \<subseteq> ?B" by auto
  ultimately have "?A \<subset> ?B" by blast
  then have "card ?A < card ?B" using fin by (rule psubset_card_mono[rotated])
  then show "((dates_set, today, streak + 1), (dates_set, today, streak))
        \<in> measure (\<lambda>(S, today, streak). card {d \<in> fset S. d \<le> today - int streak})"
    by simp
qed

declare web_streak_loop.simps [simp del]

definition web_calculate_streak :: "date \<Rightarrow> int fset \<Rightarrow> nat" where
  "web_calculate_streak today dates_set =
     (if dates_set = {||} then 0 else web_streak_loop dates_set today 0)"

text \<open>The set of days with a session, built from the log by both front ends
  (\<^verbatim>\<open>dates_studied\<close>).\<close>

definition dates_studied :: "session list \<Rightarrow> int fset" where
  "dates_studied lg = fset_of_list (map (\<lambda>entry. date_of (timestamp entry)) lg)"

section \<open>Priority engine\<close>

text \<open>\<^verbatim>\<open>get_days_since_last_session(subject)\<close>: whole days since the latest session of
  the subject, \<open>None\<close> when it has none.\<close>

definition get_days_since_last_session :: "session list \<Rightarrow> datetime \<Rightarrow> string \<Rightarrow> int option" where
  "get_days_since_last_session lg now subj =
     (case map timestamp (filter (\<lambda>entry. subject entry = subj) lg) of
        [] \<Rightarrow> None
      | t # ts \<Rightarrow> Some (timedelta_days (now - fold max ts t)))"

text \<open>\<^verbatim>\<open>recent_session_count(subject, days)\<close>: the entries of the subject whose timestamp
  is not before \<^verbatim>\<open>now - timedelta(days=days)\<close>. The web front end has the same sum
  inline.\<close>

definition recent_session_count :: "session list \<Rightarrow> datetime \<Rightarrow> string \<Rightarrow> int \<Rightarrow> int" where
  "recent_session_count lg now subj days =
     (let cutoff = now - days * us_per_day
      in int (length (filter (\<lambda>entry. subject entry = subj \<and> timestamp entry \<ge> cutoff) lg)))"

text \<open>\<^verbatim>\<open>urgency = 1 / max(days_left, 0.1)\<close>, the same line in both front ends.\<close>

definition urgency :: "int \<Rightarrow> real" where
  "urgency days_left = 1 / max (real_of_int days_left) 0.1"

text \<open>The body of the scoring loop of \<^verbatim>\<open>instant_mode\<close>, for a subject with exam date
  \<open>exam\<close> and stored confidence \<open>stored_conf\<close>. Without a session the terminal
  front end takes the stored confidence as it is.\<close>

definition cli_priority_score ::
  "date \<Rightarrow> datetime \<Rightarrow> session list \<Rightarrow> string \<Rightarrow> date \<Rightarrow> int \<Rightarrow> real" where
  "cli_priority_score today now lg subj exam stored_conf =
     (let days_left = exam - today;
          days_since = get_days_since_last_session lg now subj;
          adjusted_conf =
            (case days_since of
               Some ds \<Rightarrow> (let decay = min (ds div 7) 3 in max 1 (stored_conf - decay))
             | None \<Rightarrow> stored_conf);
          difficulty = 11 - adjusted_conf;
          recent = recent_session_count lg now subj 7;
          repetition_penalty = real_of_int recent * 0.5
      in (urgency days_left * 1.5) + real_of_int difficulty - repetition_penalty)"

text \<open>The same loop body on the Instant Mode page of the web front end, where the decay
  is 0 without a session and the lower bound 1 applies in both cases.\<close>

definition web_priority_score ::
  "date \<Rightarrow> datetime \<Rightarrow> session list \<Rightarrow> string \<Rightarrow> date \<Rightarrow> int \<Rightarrow> real" where
  "web_priority_score today now lg subj exam stored_conf =
     (let days_left = exam - today;
          days_since = get_days_since_last_session lg now subj;
          decay = (case days_since of Some ds \<Rightarrow> min (ds div 7) 3 | None \<Rightarrow> 0);
          adjusted_conf = max 1 (stored_conf - decay);
          difficulty = 11 - adjusted_conf;
          recent_count = recent_session_count lg now subj 7;
          repetition_penalty = real_of_int recent_count * 0.5
      in (urgency days_left * 1.5) + real_of_int difficulty - repetition_penalty)"

text \<open>One round of the loop over \<^verbatim>\<open>subjects.items()\<close>: arithmetic on a value that is
  \<^verbatim>\<open>None\<close> raises \<^verbatim>\<open>TypeError\<close>.\<close>

definition score_entry ::
  "(string \<Rightarrow> date \<Rightarrow> int \<Rightarrow> real) \<Rightarrow> string \<times> subject_data \<Rightarrow> error + (string \<times> real)" where
  "score_entry score entry =
     (case exam_date (snd entry) of
        None \<Rightarrow> Inl TypeError
      | Some exam \<Rightarrow>
          (case confidence (snd entry) of
             None \<Rightarrow> Inl TypeError
           | Some stored_conf \<Rightarrow> Inr (fst entry, score (fst entry) exam stored_conf)))"

fun collect :: "('a \<Rightarrow> error + 'b) \<Rightarrow> 'a list \<Rightarrow> error + 'b list" where
  "collect f [] = Inr []"
| "collect f (x # xs) =
     (case f x of
        Inl e \<Rightarrow> Inl e
      | Inr y \<Rightarrow> (case collect f xs of Inl e \<Rightarrow> Inl e | Inr ys \<Rightarrow> Inr (y # ys)))"

text \<open>\<^verbatim>\<open>subject_priorities.sort(key=lambda x: x[1], reverse=True)\<close>: Python's sort is
  stable, also with \<^verbatim>\<open>reverse=True\<close>, and so is the insertion sort \<open>sort_key\<close> on
  the negated score.\<close>

definition sort_priorities :: "(string \<times> real) list \<Rightarrow> (string \<times> real) list" where
  "sort_priorities ps = sort_key (\<lambda>x. - snd x) ps"

definition cli_subject_priorities ::
  "date \<Rightarrow> datetime \<Rightarrow> session list \<Rightarrow> subject_store \<Rightarrow> error + (string \<times> real) list" where
  "cli_subject_priorities today now lg subjs =
     (case collect (score_entry (cli_priority_score today now lg)) subjs of
        Inl e \<Rightarrow> Inl e
      | Inr ps \<Rightarrow> Inr (sort_priorities ps))"

definition web_subject_priorities ::
  "date \<Rightarrow> datetime \<Rightarrow> session list \<Rightarrow> subject_store \<Rightarrow> error + (string \<times> real) list" where
  "web_subject_priorities today now lg subjs =
     (case collect (score_entry (web_priority_score today now lg)) subjs of
        Inl e \<Rightarrow> Inl e
      | Inr ps \<Rightarrow> Inr (sort_priorities ps))"

text \<open>The guard of Instant Mode in both front ends:
  \<^verbatim>\<open>all(data.get("exam_date") and data.get("confidence") for data in subjects.values())\<close>.
  A date is always truthy; a confidence is truthy when it is set and not 0.\<close>

definition configured :: "subject_data \<Rightarrow> bool" where
  "configured data =
     (exam_date data \<noteq> None \<and> (case confidence data of None \<Rightarrow> False | Some c \<Rightarrow> c \<noteq> 0))"

definition all_configured :: "subject_store \<Rightarrow> bool" where
  "all_configured subjs = list_all (\<lambda>entry. configured (snd entry)) subjs"

text \<open>The loop that offers the subjects in ranked order: the first answer \<^verbatim>\<open>yes\<close>
  (after \<^verbatim>\<open>strip().lower()\<close>) chooses the subject and ends the loop.\<close>

fun offer :: "(string \<times> real) list \<Rightarrow> string list \<Rightarrow> error + (string option \<times> string list)" where
  "offer [] inp = Inr (None, inp)"
| "offer (p # ps) [] = Inl EOFError"
| "offer (p # ps) (l # ls) =
     (if lower (strip l) = ''yes'' then Inr (Some (fst p), ls) else offer ps ls)"

text \<open>\<^verbatim>\<open>if not chosen_subject: chosen_subject = subject_priorities[0][0]\<close>. The test is
  Python's truth value: \<^verbatim>\<open>None\<close> and the empty string both take the fallback, and
  index 0 of an empty list raises \<^verbatim>\<open>IndexError\<close>.\<close>

definition fallback :: "(string \<times> real) list \<Rightarrow> string option \<Rightarrow> error + string" where
  "fallback subject_priorities chosen =
     (case chosen of
        Some (c # cs) \<Rightarrow> Inr (c # cs)
      | _ \<Rightarrow> (case subject_priorities of [] \<Rightarrow> Inl IndexError | p # ps \<Rightarrow> Inr (fst p)))"

definition choose_subject ::
  "(string \<times> real) list \<Rightarrow> string list \<Rightarrow> error + (string \<times> string list)" where
  "choose_subject subject_priorities inp =
     (case offer subject_priorities inp of
        Inl e \<Rightarrow> Inl e
      | Inr (chosen, rest) \<Rightarrow>
          (case fallback subject_priorities chosen of
             Inl e \<Rightarrow> Inl e
           | Inr subj \<Rightarrow> Inr (subj, rest)))"

definition suggested_task :: "string \<Rightarrow> string" where
  "suggested_task energy =
     (if energy = ''low'' then ''Flashcards or Light Revision''
      else if energy = ''medium'' then ''Practice Questions or Diagrams''
      else ''Essays or Full Past Paper Sections'')"

text \<open>\<^verbatim>\<open>subjects[subject]["confidence"] = value\<close> for a subject of the store.\<close>

definition set_confidence :: "string \<Rightarrow> int \<Rightarrow> subject_store \<Rightarrow> subject_store" where
  "set_confidence subj c subjs = AList.map_entry subj (\<lambda>data. data\<lparr>confidence := Some c\<rparr>) subjs"

text \<open>The end of \<^verbatim>\<open>instant_mode\<close> after the answer \<^verbatim>\<open>yes\<close> to "Did you complete
  the session?": the confidence is stored as typed, without a range check, and the entry is
  appended. \<^verbatim>\<open>int(new_conf)\<close> raises before anything is changed; \<^verbatim>\<open>int(rating)\<close>
  raises after the confidence was stored.\<close>

definition log_instant_session ::
  "datetime \<Rightarrow> string \<Rightarrow> string \<Rightarrow> int \<Rightarrow> string \<Rightarrow> string \<Rightarrow> store \<Rightarrow> error option \<times> store" where
  "log_instant_session now chosen task mins rating new_conf st =
     (if strip new_conf \<noteq> [] \<and> py_int new_conf = None then (Some ValueError, st)
      else
        (let st1 = (if strip new_conf \<noteq> []
                    then st\<lparr>subjects := set_confidence chosen (the (py_int new_conf)) (subjects st)\<rparr>
                    else st)
         in (case py_int rating of
               None \<Rightarrow> (Some ValueError, st1)
             | Some r \<Rightarrow>
                 (None, st1\<lparr>session_log := session_log st1 @
                    [\<lparr>subject = chosen, timestamp = now, task_type = task,
                      duration_mins = mins, effectiveness = Some r\<rparr>]\<rparr>))))"

text \<open>
  \<^verbatim>\<open>instant_mode(subjects)\<close> of the terminal front end. The result is the subject
  announced with "You'll be revising", or the way the call ended before, together with
  the store as the call left it.
\<close>

definition instant_mode ::
  "date \<Rightarrow> datetime \<Rightarrow> string list \<Rightarrow> store \<Rightarrow> (error + string) \<times> store" where
  "instant_mode today now inp st =
     (if \<not> all_configured (subjects st) then (Inl IncompleteConfigurationError, st)
      else
        (case ask_int inp of
           Inl e \<Rightarrow> (Inl e, st)
         | Inr (mins, in1) \<Rightarrow>
         (case ask_energy in1 of
           Inl e \<Rightarrow> (Inl e, st)
         | Inr (energy, in2) \<Rightarrow>
         (case cli_subject_priorities today now (session_log st) (subjects st) of
           Inl e \<Rightarrow> (Inl e, st)
         | Inr subject_priorities \<Rightarrow>
         (case choose_subject subject_priorities in2 of
           Inl e \<Rightarrow> (Inl e, st)
         | Inr (chosen_subject, in3) \<Rightarrow>
         (case in3 of
           [] \<Rightarrow> (Inl EOFError, st)
         | completed # in4 \<Rightarrow>
             if lower (strip completed) = ''yes''
             then (case in4 of
                     [] \<Rightarrow> (Inl EOFError, st)
                   | rating # in5 \<Rightarrow>
                   (case in5 of
                     [] \<Rightarrow> (Inl EOFError, st)
                   | new_conf # in6 \<Rightarrow>
                       (case log_instant_session now chosen_subject (suggested_task energy)
                               mins rating new_conf st of
                          (Some e, st') \<Rightarrow> (Inl e, st')
                        | (None, st') \<Rightarrow> (Inr chosen_subject, st'))))
             else (Inr chosen_subject, st)))))))"

text \<open>
  The Instant Mode page of the web front end after "Suggest a Subject!": the same guard,
  then the suggestion \<^verbatim>\<open>subject_priorities[0][0]\<close>; the page asks no confirmation.
\<close>

definition web_instant_suggestion :: "date \<Rightarrow> datetime \<Rightarrow> store \<Rightarrow> error + string" where
  "web_instant_suggestion today now st =
     (if \<not> all_configured (subjects st) then Inl IncompleteConfigurationError
      else
        (case web_subject_priorities today now (session_log st) (subjects st) of
           Inl e \<Rightarrow> Inl e
         | Inr subject_priorities \<Rightarrow>
             (case subject_priorities of [] \<Rightarrow> Inl IndexError | p # ps \<Rightarrow> Inr (fst p))))"

section \<open>Session recorder\<close>

text \<open>
  The end of \<^verbatim>\<open>manual_log_session\<close>, from the confidence prompt on. \<open>new_conf\<close> is the
  reply after \<^verbatim>\<open>strip()\<close>. A reply that is not an integer from 1 to 10 is reported as
  "Invalid confidence value, ignored"; the entry is appended in every case.
\<close>

definition log_manual_session ::
  "datetime \<Rightarrow> string \<Rightarrow> int \<Rightarrow> string \<Rightarrow> int \<Rightarrow> string \<Rightarrow> store \<Rightarrow> store" where
  "log_manual_session now subj mins task eff new_conf st =
     (let st1 =
            (if new_conf \<noteq> []
             then (case py_int new_conf of
                     Some conf_val \<Rightarrow>
                       if 1 \<le> conf_val \<and> conf_val \<le> 10
                       then st\<lparr>subjects := set_confidence subj conf_val (subjects st)\<rparr>
                       else st
                   | None \<Rightarrow> st)
             else st)
      in st1\<lparr>session_log := session_log st1 @
            [\<lparr>subject = subj, timestamp = now, task_type = task,
              duration_mins = mins, effectiveness = Some eff\<rparr>]\<rparr>)"

text \<open>
  \<^verbatim>\<open>manual_log_session(subjects)\<close>: the prompts for the subject, the minutes (any
  integer), the task, the effectiveness (1 to 10) and the confidence, then the update above.
  The result is the exception that ended the call, if any, and the store as the call left
  it.
\<close>

definition manual_log_session :: "datetime \<Rightarrow> string list \<Rightarrow> store \<Rightarrow> error option \<times> store" where
  "manual_log_session now inp st =
     (case ask_subject (subjects st) inp of
        Inl e \<Rightarrow> (Some e, st)
      | Inr (subj, in1) \<Rightarrow>
      (case ask_int in1 of
        Inl e \<Rightarrow> (Some e, st)
      | Inr (mins, in2) \<Rightarrow>
      (case in2 of
        [] \<Rightarrow> (Some EOFError, st)
      | task # in3 \<Rightarrow>
      (case ask_effectiveness in3 of
        Inl e \<Rightarrow> (Some e, st)
      | Inr (eff, in4) \<Rightarrow>
      (case in4 of
        [] \<Rightarrow> (Some EOFError, st)
      | l # in5 \<Rightarrow> (None, log_manual_session now subj mins task eff (strip l) st))))))"

section \<open>Statistics\<close>

text \<open>One value of \<^verbatim>\<open>subject_stats\<close>, a \<^verbatim>\<open>defaultdict\<close> whose missing keys start at
  \<^verbatim>\<open>{"count": 0, "total_time": 0, "total_rating": 0}\<close>.\<close>

record stats =
  count :: int
  total_time :: int
  total_rating :: int

text \<open>One round of the loop over the log, the same in both front ends. A key is created
  when the first entry of its subject is counted.\<close>

definition add_session :: "(string \<times> stats) list \<Rightarrow> session \<Rightarrow> (string \<times> stats) list" where
  "add_session acc entry =
     (let subj = subject entry;
          cur = (case map_of acc subj of
                   None \<Rightarrow> \<lparr>count = 0, total_time = 0, total_rating = 0\<rparr>
                 | Some s \<Rightarrow> s)
      in AList.update subj
           (cur\<lparr>count := count cur + 1,
                total_time := total_time cur + duration_mins entry,
                total_rating := total_rating cur +
                  (case effectiveness entry of None \<Rightarrow> 0 | Some r \<Rightarrow> r)\<rparr>)
           acc)"

definition subject_stats :: "session list \<Rightarrow> (string \<times> stats) list" where
  "subject_stats lg = foldl add_session [] lg"

text \<open>Python's \<^verbatim>\<open>a / b\<close> on integers.\<close>

definition truediv :: "int \<Rightarrow> int \<Rightarrow> error + real" where
  "truediv a b = (if b = 0 then Inl ZeroDivisionError else Inr (real_of_int a / real_of_int b))"

text \<open>\<^verbatim>\<open>avg_rating = stats["total_rating"] / stats["count"]\<close> in the terminal front end;
  the web front end adds \<^verbatim>\<open>if stats["count"] > 0 else 0\<close>.\<close>

definition cli_avg_rating :: "stats \<Rightarrow> error + real" where
  "cli_avg_rating s = truediv (total_rating s) (count s)"

definition web_avg_rating :: "stats \<Rightarrow> error + real" where
  "web_avg_rating s = (if count s > 0 then truediv (total_rating s) (count s) else Inr 0)"

text \<open>A line of the summary: subject, sessions, minutes, average effectiveness.\<close>

type_synonym summary_row = "string \<times> int \<times> int \<times> real"

definition summary_row :: "(stats \<Rightarrow> error + real) \<Rightarrow> string \<times> stats \<Rightarrow> error + summary_row" where
  "summary_row avg item =
     (case avg (snd item) of
        Inl e \<Rightarrow> Inl e
      | Inr avg_rating \<Rightarrow> Inr (fst item, count (snd item), total_time (snd item), avg_rating))"

datatype summary = Summary nat int "summary_row list" nat

text \<open>\<^verbatim>\<open>view_summary()\<close> of the terminal front end: nothing but a notice for an empty log,
  else the number of sessions, the minutes, the lines per subject and the streak.\<close>

definition view_summary :: "date \<Rightarrow> session list \<Rightarrow> error + summary option" where
  "view_summary today lg =
     (if lg = [] then Inr None
      else (case collect (summary_row cli_avg_rating) (subject_stats lg) of
              Inl e \<Rightarrow> Inl e
            | Inr rows \<Rightarrow>
                Inr (Some (Summary (length lg) (sum_list (map duration_mins lg)) rows
                       (cli_calculate_streak today (dates_studied lg))))))"

text \<open>The Dashboard page of the web front end.\<close>

definition web_dashboard :: "date \<Rightarrow> session list \<Rightarrow> error + summary option" where
  "web_dashboard today lg =
     (if lg = [] then Inr None
      else (case collect (summary_row web_avg_rating) (subject_stats lg) of
              Inl e \<Rightarrow> Inl e
            | Inr rows \<Rightarrow>
                Inr (Some (Summary (length lg) (sum_list (map duration_mins lg)) rows
                       (web_calculate_streak today (dates_studied lg))))))"

text \<open>What the statistics of a subject are to be: the number of its entries, the sum of
  their minutes and the sum of their ratings; and the line of the summary with the average
  \<open>total_rating / count\<close>.\<close>

definition stats_of :: "session list \<Rightarrow> string \<Rightarrow> stats" where
  "stats_of lg subj =
     (let mine = filter (\<lambda>entry. subject entry = subj) lg
      in \<lparr>count = int (length mine),
          total_time = sum_list (map duration_mins mine),
          total_rating = sum_list (map (\<lambda>entry. case effectiveness entry of None \<Rightarrow> 0 | Some r \<Rightarrow> r) mine)\<rparr>)"

definition avg_row :: "string \<times> stats \<Rightarrow> summary_row" where
  "avg_row item =
     (fst item, count (snd item), total_time (snd item),
      real_of_int (total_rating (snd item)) / real_of_int (count (snd item)))"

section \<open>The score as the specification words it\<close>




section \<open>Example data\<close>

text \<open>\<^verbatim>\<open>default_subjects\<close> and the empty \<^verbatim>\<open>session_log\<close> the terminal front end starts
  with when no file is found.\<close>

definition default_subjects :: subject_store where
  "default_subjects =
     [(''Science'', \<lparr>confidence = None, exam_date = None\<rparr>),
      (''Irish'', \<lparr>confidence = None, exam_date = None\<rparr>),
      (''Maths'', \<lparr>confidence = None, exam_date = None\<rparr>),
      (''English'', \<lparr>confidence = None, exam_date = None\<rparr>)]"

definition default_store :: store where
  "default_store = \<lparr>subjects = default_subjects, session_log = []\<rparr>"

text \<open>The set of the days \<open>0\<close> to \<open>n - 1\<close>, a log with one session on
  each of these days, and a session one hour into day \<open>d\<close>.\<close>

definition consecutive_days :: "nat \<Rightarrow> int fset" where
  "consecutive_days n = fset_of_list (map int [0..<n])"

definition daily_log :: "nat \<Rightarrow> session list" where
  "daily_log n =
     map (\<lambda>i. \<lparr>subject = ''Maths'', timestamp = int i * us_per_day, task_type = ''Essay'',
               duration_mins = 30, effectiveness = Some 5\<rparr>) [0..<n]"

definition ex_session :: "date \<Rightarrow> session" where
  "ex_session d = \<lparr>subject = ''Maths'', timestamp = d * us_per_day + 3600000000, task_type = ''Essay'',
               duration_mins = 30, effectiveness = Some 5\<rparr>"

text \<open>A configured store: Maths with confidence 8 and its exam on day 25, Irish with
  confidence 3 and its exam on day 60, and three Maths sessions on the days 2, 18 and 19.\<close>

definition ex_store :: store where
  "ex_store =
     \<lparr>subjects = [(''Maths'', \<lparr>confidence = Some 8, exam_date = Some 25\<rparr>),
                  (''Irish'', \<lparr>confidence = Some 3, exam_date = Some 60\<rparr>)],
      session_log = [ex_session 2, ex_session 18, ex_session 19]\<rparr>"



text \<open>A configured store, as a subjects file can hold it, in which one subject has the
  empty name.\<close>

definition blank_name_store :: store where
  "blank_name_store =
     \<lparr>subjects = [(''Maths'', \<lparr>confidence = Some 1, exam_date = Some 25\<rparr>),
                  ('''', \<lparr>confidence = Some 10, exam_date = Some 25\<rparr>)],
      session_log = []\<rparr>"

section \<open>Properties of the streak\<close>

text \<open>The web loop returns a count that is not before its start, whose day is missing
  from the set, and below which every day is in the set; such a count is unique. The
  terminal loop over \<open>[k..<m]\<close> is the web loop cut off at \<open>m\<close>.\<close>

lemma web_streak_loop_ge: "streak \<le> web_streak_loop S today streak"
proof (induction S today streak rule: web_streak_loop.induct)
  case (1 S today streak)
  show ?case
  proof (cases "(today - int streak) |\<in>| S")
    case True
    then have "web_streak_loop S today streak = web_streak_loop S today (streak + 1)"
      by (subst web_streak_loop.simps) simp
    with "1.IH"[OF True] show ?thesis by simp
  next
    case False
    then show ?thesis by (subst web_streak_loop.simps) simp
  qed
qed

lemma web_streak_loop_gap: "today - int (web_streak_loop S today streak) |\<notin>| S"
proof (induction S today streak rule: web_streak_loop.induct)
  case (1 S today streak)
  show ?case
  proof (cases "(today - int streak) |\<in>| S")
    case True
    then have "web_streak_loop S today streak = web_streak_loop S today (streak + 1)"
      by (subst web_streak_loop.simps) simp
    with "1.IH"[OF True] show ?thesis by simp
  next
    case False
    then have "web_streak_loop S today streak = streak"
      by (subst web_streak_loop.simps) simp
    with False show ?thesis by simp
  qed
qed

lemma web_streak_loop_run:
  "streak \<le> i \<Longrightarrow> i < web_streak_loop S today streak \<Longrightarrow> today - int i |\<in>| S"
proof (induction S today streak rule: web_streak_loop.induct)
  case (1 S today streak)
  show ?case
  proof (cases "(today - int streak) |\<in>| S")
    case True
    then have eq: "web_streak_loop S today streak = web_streak_loop S today (streak + 1)"
      by (subst web_streak_loop.simps) simp
    show ?thesis
    proof (cases "i = streak")
      case True
      with \<open>(today - int streak) |\<in>| S\<close> show ?thesis by simp
    next
      case False
      with "1.prems" have "streak + 1 \<le> i" by simp
      moreover from "1.prems" eq have "i < web_streak_loop S today (streak + 1)" by simp
      ultimately show ?thesis using "1.IH"[OF True] by blast
    qed
  next
    case False
    then have "web_streak_loop S today streak = streak"
      by (subst web_streak_loop.simps) simp
    with "1.prems" show ?thesis by simp
  qed
qed

lemma cli_web_streak_loop:
  "k \<le> m \<Longrightarrow> cli_streak_loop S today [k..<m] k = min m (web_streak_loop S today k)"
proof (induction S today k rule: web_streak_loop.induct)
  case (1 S today k)
  show ?case
  proof (cases "k < m")
    case False
    with "1.prems" have "k = m" by simp
    moreover have "m \<le> web_streak_loop S today m" by (rule web_streak_loop_ge)
    ultimately show ?thesis by simp
  next
    case True
    then have upt: "[k..<m] = k # [k + 1..<m]" by (simp add: upt_conv_Cons)
    show ?thesis
    proof (cases "(today - int k) |\<in>| S")
      case mem: True
      then have "web_streak_loop S today k = web_streak_loop S today (k + 1)"
        by (subst web_streak_loop.simps) simp
      moreover from True have "k + 1 \<le> m" by simp
      ultimately show ?thesis using "1.IH"[OF mem] mem upt by simp
    next
      case nomem: False
      then have "web_streak_loop S today k = k"
        by (subst web_streak_loop.simps) simp
      with nomem upt True show ?thesis by simp
    qed
  qed
qed

lemma cli_calculate_streak_min:
  "cli_calculate_streak today S = min 100 (web_calculate_streak today S)"
  using cli_web_streak_loop[of 0 100 S today]
  by (simp add: cli_calculate_streak_def web_calculate_streak_def)

lemma web_streak_loop_unique:
  assumes "\<forall>i<n. today - int i |\<in>| S" and "today - int n |\<notin>| S"
  shows "web_streak_loop S today 0 = n"
proof -
  let ?w = "web_streak_loop S today 0"
  have "\<not> ?w < n" using assms(1) web_streak_loop_gap[of today S 0] by blast
  moreover have "\<not> n < ?w" using assms(2) web_streak_loop_run[of 0 n S today] by blast
  ultimately show ?thesis by simp
qed

lemma dates_studied_Nil: "dates_studied [] = {||}"
  by (simp add: dates_studied_def)

lemma web_calculate_streak_run:
  "i < web_calculate_streak today S \<Longrightarrow> today - int i |\<in>| S"
  using web_streak_loop_run[of 0 i S today]
  by (simp add: web_calculate_streak_def split: if_splits)

lemma web_calculate_streak_gap: "today - int (web_calculate_streak today S) |\<notin>| S"
  using web_streak_loop_gap[of today S 0]
  by (simp add: web_calculate_streak_def)

lemma web_calculate_streak_unique:
  assumes "\<forall>i<n. today - int i |\<in>| S" and "today - int n |\<notin>| S"
  shows "web_calculate_streak today S = n"
proof (cases "S = {||}")
  case True
  with assms(1) have "n = 0" by (cases n) auto
  with True show ?thesis by (simp add: web_calculate_streak_def)
next
  case False
  with web_streak_loop_unique[OF assms] show ?thesis by (simp add: web_calculate_streak_def)
qed

lemma streak_single_today:
  assumes "date_of (timestamp s) = today"
  shows "web_calculate_streak today (dates_studied [s]) = 1"
proof (rule web_calculate_streak_unique)
  show "\<forall>i<1. today - int i |\<in>| dates_studied [s]"
    using assms by (simp add: dates_studied_def)
  show "today - int 1 |\<notin>| dates_studied [s]"
    using assms by (simp add: dates_studied_def)
qed

lemma streak_stale:
  assumes "\<forall>e \<in> set lg. date_of (timestamp e) \<le> today - 2"
  shows "web_calculate_streak today (dates_studied lg) = 0"
proof (rule web_calculate_streak_unique)
  show "\<forall>i<0. today - int i |\<in>| dates_studied lg" by simp
  show "today - int 0 |\<notin>| dates_studied lg"
  proof
    assume "today - int 0 |\<in>| dates_studied lg"
    then obtain e where "e \<in> set lg" and "date_of (timestamp e) = today"
      by (auto simp: dates_studied_def fset_of_list_elem)
    with assms show False by fastforce
  qed
qed

text \<open>
  Claim C5, as the code has it. The streak of an empty log is 0, of a log with exactly one
  session dated today 1, and of a log whose sessions are all dated two or more days before
  today 0, in both front ends. The web front end counts the consecutive days backward
  from today that are in the set of session dates and stops at the first gap. The terminal
  front end does the same over at most 100 days: its count is at most 100, every day
  below the count is in the set, and the day at the count is a gap when the count is below
  100.
\<close>

theorem streak_from_log:
  "cli_calculate_streak today (dates_studied []) = 0
   \<and> web_calculate_streak today (dates_studied []) = 0
   \<and> (date_of (timestamp s) = today \<longrightarrow>
        cli_calculate_streak today (dates_studied [s]) = 1
        \<and> web_calculate_streak today (dates_studied [s]) = 1)
   \<and> ((\<forall>e \<in> set old. date_of (timestamp e) \<le> today - 2) \<longrightarrow>
        cli_calculate_streak today (dates_studied old) = 0
        \<and> web_calculate_streak today (dates_studied old) = 0)
   \<and> (\<forall>i < web_calculate_streak today (dates_studied lg).
          today - int i |\<in>| dates_studied lg)
   \<and> today - int (web_calculate_streak today (dates_studied lg)) |\<notin>| dates_studied lg
   \<and> cli_calculate_streak today (dates_studied lg) \<le> 100
   \<and> (\<forall>i < cli_calculate_streak today (dates_studied lg).
          today - int i |\<in>| dates_studied lg)
   \<and> (cli_calculate_streak today (dates_studied lg) < 100 \<longrightarrow>
        today - int (cli_calculate_streak today (dates_studied lg)) |\<notin>| dates_studied lg)"
proof -
  have empty: "web_calculate_streak today (dates_studied []) = 0"
    by (simp add: web_calculate_streak_def dates_studied_Nil)
  have cli_run: "\<forall>i < cli_calculate_streak today (dates_studied lg).
          today - int i |\<in>| dates_studied lg"
    by (simp add: cli_calculate_streak_min web_calculate_streak_run)
  have cli_gap: "cli_calculate_streak today (dates_studied lg) < 100 \<longrightarrow>
        today - int (cli_calculate_streak today (dates_studied lg)) |\<notin>| dates_studied lg"
    using web_calculate_streak_gap[of today "dates_studied lg"]
    by (auto simp: cli_calculate_streak_min min_def split: if_splits)
  show ?thesis
    using empty cli_run cli_gap
    by (simp add: cli_calculate_streak_min streak_single_today streak_stale
        web_calculate_streak_run web_calculate_streak_gap)
qed

theorem streak_from_log_witness:
  "date_of (timestamp (ex_session 10)) = 10
   \<and> date_of (timestamp (ex_session 8)) \<le> 10 - 2
   \<and> date_of (timestamp (ex_session 3)) \<le> 10 - 2
   \<and> cli_calculate_streak 10 (dates_studied [ex_session 10]) = 1
   \<and> web_calculate_streak 10 (dates_studied [ex_session 10]) = 1
   \<and> cli_calculate_streak 10 (dates_studied [ex_session 8, ex_session 3]) = 0
   \<and> web_calculate_streak 10 (dates_studied [ex_session 8, ex_session 3]) = 0
   \<and> cli_calculate_streak 10 (dates_studied [ex_session 7, ex_session 10, ex_session 9]) = 2
   \<and> cli_calculate_streak 10 (dates_studied [ex_session 7, ex_session 10, ex_session 9]) < 100
   \<and> 10 - int 2 |\<notin>| dates_studied [ex_session 7, ex_session 10, ex_session 9]"
proof -
  have h1: "date_of (timestamp (ex_session 10)) = 10" by code_simp
  have h2: "\<forall>e \<in> set [ex_session 8, ex_session 3]. date_of (timestamp e) \<le> 10 - 2" by code_simp
  have h3: "cli_calculate_streak 10 (dates_studied [ex_session 7, ex_session 10, ex_session 9]) = 2"
    by code_simp
  from streak_from_log[of 10 "ex_session 10" "[ex_session 8, ex_session 3]"
      "[ex_session 7, ex_session 10, ex_session 9]"] h1 h2 h3
  show ?thesis by simp
qed

text \<open>
  Claim C5 as stated fails for the terminal front end: with a session on each of the 101 days
  up to today it reports 100, although the day 100 days back has a session too, so
  the count did not stop at a gap.
\<close>

theorem cli_streak_stops_without_gap:
  "cli_calculate_streak 100 (dates_studied (daily_log 101)) = 100
   \<and> 100 - int 100 |\<in>| dates_studied (daily_log 101)"
  by code_simp

text \<open>
  Claim C10 as stated fails: on the set of the 101 days up to today the terminal front end
  returns 100 and the web front end 101.
\<close>

theorem streak_front_ends_differ:
  "cli_calculate_streak 100 (consecutive_days 101) = 100
   \<and> web_calculate_streak 100 (consecutive_days 101) = 101"
  by code_simp

text \<open>
  Claim C10, as the code has it. The streak of the terminal front end is the streak of the
  web front end capped at 100, so the two return the same value exactly when the web
  streak is at most 100.
\<close>

theorem cli_streak_is_web_streak_capped:
  "cli_calculate_streak today S = min 100 (web_calculate_streak today S)
   \<and> (cli_calculate_streak today S = web_calculate_streak today S)
       = (web_calculate_streak today S \<le> 100)"
  by (auto simp: cli_calculate_streak_min)

section \<open>Properties of the priority engine\<close>









text \<open>
  Claim C7 as stated fails: urgency does not strictly decrease as the days left grow from
  -1 to 0; it is 10 at both.
\<close>

theorem urgency_not_strictly_decreasing:
  "(-1::int) < 0 \<and> urgency (-1) = 10 \<and> urgency 0 = 10 \<and> \<not> urgency 0 < urgency (-1)"
  by (simp add: urgency_def)

text \<open>
  Claim C7, as the code has it. For days left at most 0 the urgency is exactly 10; the
  urgency never increases as the days left grow, and it strictly decreases whenever the
  larger number of days left is at least 1.
\<close>

theorem urgency_clamped_and_decreasing:
  "(days_left \<le> 0 \<longrightarrow> urgency days_left = 10)
   \<and> (d1 < d2 \<longrightarrow> urgency d2 \<le> urgency d1)
   \<and> (d1 < d2 \<and> 1 \<le> d2 \<longrightarrow> urgency d2 < urgency d1)"
proof (intro conjI impI)
  assume "days_left \<le> 0"
  then have "max (real_of_int days_left) 0.1 = 0.1" by (simp add: max_def)
  then show "urgency days_left = 10" by (simp add: urgency_def)
next
  assume "d1 < d2"
  then have "max (real_of_int d1) 0.1 \<le> max (real_of_int d2) 0.1" by (simp add: max_def)
  moreover have "0 < max (real_of_int d1) 0.1" by (simp add: max_def)
  ultimately show "urgency d2 \<le> urgency d1"
    unfolding urgency_def by (simp add: frac_le)
next
  assume a: "d1 < d2 \<and> 1 \<le> d2"
  then have m2: "max (real_of_int d2) 0.1 = real_of_int d2" by (simp add: max_def)
  have pos: "0 < max (real_of_int d1) 0.1" by (simp add: max_def)
  have "max (real_of_int d1) 0.1 < real_of_int d2"
  proof (cases "real_of_int d1 \<le> 0.1")
    case True
    then have "max (real_of_int d1) 0.1 = 0.1" by (simp add: max_def)
    moreover from a have "1 \<le> real_of_int d2" by simp
    ultimately show ?thesis by simp
  next
    case False
    then have "max (real_of_int d1) 0.1 = real_of_int d1" by (simp add: max_def)
    with a show ?thesis by simp
  qed
  with pos show "urgency d2 < urgency d1"
    unfolding urgency_def m2 by (simp add: frac_less2)
qed

theorem urgency_clamped_and_decreasing_witness:
  "(-3::int) \<le> 0 \<and> urgency (-3) = 10
   \<and> (2::int) < 5 \<and> (1::int) \<le> 5 \<and> urgency 5 \<le> urgency 2 \<and> urgency 5 < urgency 2"
  using urgency_clamped_and_decreasing[of "-3" 2 5] by simp

section \<open>Properties of Instant Mode\<close>

lemma not_all_configured:
  assumes "(subj, data) \<in> set subjs" and "confidence data = None \<or> exam_date data = None"
  shows "\<not> all_configured subjs"
proof -
  from assms(2) have "\<not> configured data" by (auto simp: configured_def)
  with assms(1) show ?thesis by (force simp: all_configured_def list_all_iff)
qed

text \<open>
  Claim C4. If a subject of the store has no confidence or no exam date, Instant Mode of
  the terminal front end ends at its guard, before any prompt and any score, and leaves
  the store as it was; the web front end ends at the same guard.
\<close>

theorem unconfigured_store_is_refused:
  assumes "(subj, data) \<in> set (subjects st)"
    and "confidence data = None \<or> exam_date data = None"
  shows "instant_mode today now inp st = (Inl IncompleteConfigurationError, st)
         \<and> web_instant_suggestion today now st = Inl IncompleteConfigurationError"
  using not_all_configured[OF assms]
  by (simp add: instant_mode_def web_instant_suggestion_def)

theorem unconfigured_store_is_refused_witness:
  "(''Maths'', \<lparr>confidence = None, exam_date = None\<rparr>) \<in> set (subjects default_store)
   \<and> confidence \<lparr>confidence = None, exam_date = None\<rparr> = None
   \<and> instant_mode 20 (20 * us_per_day) [''30'', ''low'', ''yes'', ''no''] default_store
       = (Inl IncompleteConfigurationError, default_store)
   \<and> web_instant_suggestion 20 (20 * us_per_day) default_store = Inl IncompleteConfigurationError"
proof -
  have h1: "(''Maths'', \<lparr>confidence = None, exam_date = None\<rparr>) \<in> set (subjects default_store)"
    by (simp add: default_store_def default_subjects_def)
  have h2: "confidence \<lparr>confidence = None, exam_date = None\<rparr> = None" by simp
  have h2': "confidence \<lparr>confidence = None, exam_date = None\<rparr> = None
             \<or> exam_date \<lparr>confidence = None, exam_date = None\<rparr> = None" by simp
  from unconfigured_store_is_refused[OF h1 h2', of 20 "20 * us_per_day"
      "[''30'', ''low'', ''yes'', ''no'']"] h1 h2
  show ?thesis by blast
qed

text \<open>The ranking holds the subjects of the store, and the subject chosen is one of the
  ranking.\<close>

lemma collect_map_fst:
  "collect (score_entry f) subjs = Inr ps \<Longrightarrow> map fst ps = map fst subjs"
proof (induction subjs arbitrary: ps)
  case Nil
  then show ?case by simp
next
  case (Cons x xs)
  then show ?case
    by (auto simp: score_entry_def split: sum.splits option.splits)
qed

lemma set_sort_priorities: "set (sort_priorities ps) = set ps"
  by (simp add: sort_priorities_def)

lemma subject_priorities_names:
  assumes "collect (score_entry f) subjs = Inr ps"
  shows "fst ` set (sort_priorities ps) = fst ` set subjs"
proof -
  have "fst ` set ps = set (map fst ps)" by simp
  also have "\<dots> = set (map fst subjs)" using collect_map_fst[OF assms] by simp
  finally show ?thesis by (simp add: set_sort_priorities)
qed

lemma offer_Some:
  "offer ps inp = Inr (Some s, rest) \<Longrightarrow> s \<in> fst ` set ps"
  by (induction ps inp rule: offer.induct) (auto split: if_splits)

lemma choose_subject_in_ranking:
  assumes "choose_subject ps inp = Inr (s, rest)"
  shows "ps \<noteq> [] \<and> s \<in> fst ` set ps"
proof -
  from assms obtain chosen where o: "offer ps inp = Inr (chosen, rest)"
    and f: "fallback ps chosen = Inr s"
    by (auto simp: choose_subject_def split: sum.splits prod.splits)
  show ?thesis
  proof (cases "\<exists>c cs. chosen = Some (c # cs)")
    case True
    then obtain c cs where ch: "chosen = Some (c # cs)" by blast
    with f have "s = c # cs" by (simp add: fallback_def)
    with o ch have "s \<in> fst ` set ps" using offer_Some by blast
    then show ?thesis by auto
  next
    case False
    then have "fallback ps chosen = (case ps of [] \<Rightarrow> Inl IndexError | p # ps' \<Rightarrow> Inr (fst p))"
      by (auto simp: fallback_def split: option.splits list.splits)
    with f show ?thesis by (cases ps) auto
  qed
qed

lemma choose_subject_Nil: "choose_subject [] inp = Inl IndexError"
  by (simp add: choose_subject_def fallback_def)

lemma instant_mode_Inr:
  assumes "fst (instant_mode today now inp st) = Inr subj"
  shows "\<exists>ps in2 rest. cli_subject_priorities today now (session_log st) (subjects st) = Inr ps
           \<and> choose_subject ps in2 = Inr (subj, rest)"
  using assms
  by (auto simp: instant_mode_def split: if_splits sum.splits prod.splits list.splits option.splits)

text \<open>
  Claim C9. The guard accepts the empty store. With an empty store the terminal front end,
  once the minutes and the energy level are typed, fails with \<open>IndexError\<close> at rank 0
  of the empty ranking, and so does the web front end. Whenever either front end
  returns a subject, the store is not empty and the subject is one of the store.
\<close>

theorem empty_store_has_no_rank_0:
  "all_configured []
   \<and> (ask_int inp = Inr (mins, in1) \<and> ask_energy in1 = Inr (energy, in2)
        \<longrightarrow> instant_mode today now inp (st\<lparr>subjects := []\<rparr>)
              = (Inl IndexError, st\<lparr>subjects := []\<rparr>))
   \<and> web_instant_suggestion today now (st\<lparr>subjects := []\<rparr>) = Inl IndexError
   \<and> (fst (instant_mode today now inp st) = Inr subj
        \<longrightarrow> subjects st \<noteq> [] \<and> subj \<in> fst ` set (subjects st))
   \<and> (web_instant_suggestion today now st = Inr subj
        \<longrightarrow> subjects st \<noteq> [] \<and> subj \<in> fst ` set (subjects st))"
proof (intro conjI impI)
  show "all_configured []" by (simp add: all_configured_def)
next
  assume "ask_int inp = Inr (mins, in1) \<and> ask_energy in1 = Inr (energy, in2)"
  then show "instant_mode today now inp (st\<lparr>subjects := []\<rparr>)
      = (Inl IndexError, st\<lparr>subjects := []\<rparr>)"
    by (simp add: instant_mode_def all_configured_def cli_subject_priorities_def
        sort_priorities_def choose_subject_Nil)
next
  show "web_instant_suggestion today now (st\<lparr>subjects := []\<rparr>) = Inl IndexError"
    by (simp add: web_instant_suggestion_def all_configured_def web_subject_priorities_def
        sort_priorities_def)
next
  assume a: "fst (instant_mode today now inp st) = Inr subj"
  from instant_mode_Inr[OF a] obtain ps in2 rest
    where r: "cli_subject_priorities today now (session_log st) (subjects st) = Inr ps"
      and c: "choose_subject ps in2 = Inr (subj, rest)" by blast
  from r obtain qs where q: "collect (score_entry (cli_priority_score today now (session_log st)))
        (subjects st) = Inr qs" and ps: "ps = sort_priorities qs"
    by (auto simp: cli_subject_priorities_def split: sum.splits)
  from choose_subject_in_ranking[OF c] have "subj \<in> fst ` set ps" by simp
  with subject_priorities_names[OF q] ps have "subj \<in> fst ` set (subjects st)" by simp
  then show "subjects st \<noteq> []" and "subj \<in> fst ` set (subjects st)" by auto
next
  assume a: "web_instant_suggestion today now st = Inr subj"
  then obtain qs where q: "collect (score_entry (web_priority_score today now (session_log st)))
        (subjects st) = Inr qs" and h: "sort_priorities qs \<noteq> []"
        and s: "subj = fst (hd (sort_priorities qs))"
    by (auto simp: web_instant_suggestion_def web_subject_priorities_def
        split: if_splits sum.splits list.splits)
  from h s have "subj \<in> fst ` set (sort_priorities qs)" by (cases "sort_priorities qs") auto
  with subject_priorities_names[OF q] have "subj \<in> fst ` set (subjects st)" by simp
  then show "subjects st \<noteq> []" and "subj \<in> fst ` set (subjects st)" by auto
qed

theorem empty_store_has_no_rank_0_witness:
  "ask_int [''30'', ''low'', ''yes'', ''no''] = Inr (30, [''low'', ''yes'', ''no''])
   \<and> ask_energy [''low'', ''yes'', ''no''] = Inr (''low'', [''yes'', ''no''])
   \<and> instant_mode 20 (20 * us_per_day) [''30'', ''low'', ''yes'', ''no''] (ex_store\<lparr>subjects := []\<rparr>)
       = (Inl IndexError, ex_store\<lparr>subjects := []\<rparr>)
   \<and> fst (instant_mode 20 (20 * us_per_day) [''30'', ''low'', ''yes'', ''no''] ex_store) = Inr ''Irish''
   \<and> web_instant_suggestion 20 (20 * us_per_day) ex_store = Inr ''Irish''
   \<and> subjects ex_store \<noteq> []
   \<and> ''Irish'' \<in> fst ` set (subjects ex_store)"
proof -
  have h1: "ask_int [''30'', ''low'', ''yes'', ''no''] = Inr (30, [''low'', ''yes'', ''no''])"
    by code_simp
  have h2: "ask_energy [''low'', ''yes'', ''no''] = Inr (''low'', [''yes'', ''no''])"
    by code_simp
  have h3: "fst (instant_mode 20 (20 * us_per_day) [''30'', ''low'', ''yes'', ''no''] ex_store)
      = Inr ''Irish''"
    by code_simp
  have h4: "web_instant_suggestion 20 (20 * us_per_day) ex_store = Inr ''Irish''"
    by code_simp
  from empty_store_has_no_rank_0[of "[''30'', ''low'', ''yes'', ''no'']" 30
      "[''low'', ''yes'', ''no'']" "''low''" "[''yes'', ''no'']" 20 "20 * us_per_day" ex_store
      "''Irish''"] h1 h2 h3 h4
  show ?thesis by blast
qed

text \<open>The ranking is in descending order of score, and subjects of equal score keep the
  order of the store.\<close>

lemma sort_priorities_descending:
  "sorted_wrt (\<lambda>a b. snd b \<le> snd a) (sort_priorities ps)"
proof -
  have "sorted (map (\<lambda>x. - snd x) (sort_priorities ps))"
    unfolding sort_priorities_def by (rule sorted_sort_key)
  then show ?thesis by (simp add: sorted_map)
qed

lemma sort_priorities_stable:
  "filter (\<lambda>p. snd p = k) (sort_priorities ps) = filter (\<lambda>p. snd p = k) ps"
proof -
  have "filter (\<lambda>p. - snd p = - k) (sort_key (\<lambda>x. - snd x) ps) = filter (\<lambda>p. - snd p = - k) ps"
    by (rule sort_key_stable)
  then show ?thesis by (simp add: sort_priorities_def)
qed

lemma length_sort_priorities: "length (sort_priorities ps) = length ps"
  by (simp add: sort_priorities_def)

text \<open>The offer loop chooses the subject at the position of the first answer \<open>yes\<close>,
  and none when every ranked subject is refused.\<close>

lemma offer_first_yes:
  "offer ps inp = Inr (Some s, rest) \<Longrightarrow>
     \<exists>i < length ps. i < length inp \<and> s = fst (ps ! i) \<and> lower (strip (inp ! i)) = ''yes''
        \<and> (\<forall>j < i. lower (strip (inp ! j)) \<noteq> ''yes'') \<and> rest = drop (Suc i) inp"
proof (induction ps inp rule: offer.induct)
  case (1 inp)
  then show ?case by simp
next
  case (2 p ps)
  then show ?case by simp
next
  case (3 p ps l ls)
  show ?case
  proof (cases "lower (strip l) = ''yes''")
    case True
    with "3.prems" have "s = fst p" and "rest = ls" by auto
    with True show ?thesis by (intro exI[of _ 0]) simp
  next
    case False
    with "3.prems" have "offer ps ls = Inr (Some s, rest)" by simp
    from "3.IH"[OF False this] obtain i where i: "i < length ps" "i < length ls"
      "s = fst (ps ! i)" "lower (strip (ls ! i)) = ''yes''"
      "\<forall>j < i. lower (strip (ls ! j)) \<noteq> ''yes''" "rest = drop (Suc i) ls" by blast
    have "\<forall>j < Suc i. lower (strip ((l # ls) ! j)) \<noteq> ''yes''"
    proof (intro allI impI)
      fix j assume "j < Suc i"
      then show "lower (strip ((l # ls) ! j)) \<noteq> ''yes''"
        using False i(5) by (cases j) auto
    qed
    with i show ?thesis by (intro exI[of _ "Suc i"]) simp
  qed
qed

lemma offer_None:
  "offer ps inp = Inr (None, rest) \<Longrightarrow>
     length ps \<le> length inp \<and> (\<forall>j < length ps. lower (strip (inp ! j)) \<noteq> ''yes'')
       \<and> rest = drop (length ps) inp"
proof (induction ps inp rule: offer.induct)
  case (1 inp)
  then show ?case by simp
next
  case (2 p ps)
  then show ?case by simp
next
  case (3 p ps l ls)
  show ?case
  proof (cases "lower (strip l) = ''yes''")
    case True
    with "3.prems" show ?thesis by simp
  next
    case False
    with "3.prems" have "offer ps ls = Inr (None, rest)" by simp
    from "3.IH"[OF False this] have ih: "length ps \<le> length ls"
      "\<forall>j < length ps. lower (strip (ls ! j)) \<noteq> ''yes''" "rest = drop (length ps) ls" by auto
    have "\<forall>j < length (p # ps). lower (strip ((l # ls) ! j)) \<noteq> ''yes''"
    proof (intro allI impI)
      fix j assume "j < length (p # ps)"
      then show "lower (strip ((l # ls) ! j)) \<noteq> ''yes''"
        using False ih(2) by (cases j) auto
    qed
    with ih show ?thesis by simp
  qed
qed

text \<open>Where every ranked subject has a name that is not empty, the selection returns the
  first subject accepted, and the subject of rank 0 when all are refused.\<close>

lemma choose_subject_named:
  assumes "\<forall>p \<in> set ps. fst p \<noteq> []" and "offer ps inp = Inr (chosen, rest)"
  shows "choose_subject ps inp =
           (case chosen of
              Some s \<Rightarrow> Inr (s, rest)
            | None \<Rightarrow> (case ps of [] \<Rightarrow> Inl IndexError | p # ps' \<Rightarrow> Inr (fst p, rest)))"
proof (cases chosen)
  case None
  with assms(2) show ?thesis
    by (simp add: choose_subject_def fallback_def split: list.splits)
next
  case (Some s)
  with assms(2) have "s \<in> fst ` set ps" using offer_Some by blast
  with assms(1) have "s \<noteq> []" by auto
  with Some assms(2) show ?thesis
    by (cases s) (simp_all add: choose_subject_def fallback_def)
qed

text \<open>
  Claim C6 at an input where the code departs from it. The store holds Maths and a subject
  with the empty name, ranked in this order. The caller refuses Maths and accepts the
  second subject: the offer loop chooses it, but the test \<^verbatim>\<open>if not chosen_subject\<close>
  takes the empty name for no choice, and Instant Mode announces Maths, the subject of
  rank 0.
\<close>

theorem accepted_blank_subject_is_replaced:
  "cli_subject_priorities 20 (20 * us_per_day) (session_log blank_name_store)
       (subjects blank_name_store) = Inr [(''Maths'', 10.3), ('''', 1.3)]
   \<and> offer [(''Maths'', 10.3), ('''', 1.3)] [''no'', ''yes'', ''no''] = Inr (Some '''', [''no''])
   \<and> choose_subject [(''Maths'', 10.3), ('''', 1.3)] [''no'', ''yes'', ''no'']
       = Inr (''Maths'', [''no''])
   \<and> instant_mode 20 (20 * us_per_day) [''30'', ''low'', ''no'', ''yes'', ''no''] blank_name_store
       = (Inr ''Maths'', blank_name_store)"
  by code_simp

section \<open>Properties of the session recorder\<close>

text \<open>Once the subject, the minutes and the effectiveness are typed and a reply to the
  confidence prompt follows, the call ends without an exception and appends one entry with
  the minutes as typed: the minutes are not compared with 0.\<close>

lemma manual_log_session_appends:
  assumes "ask_subject (subjects st) inp = Inr (subj, in1)"
    and "ask_int in1 = Inr (mins, task # in3)"
    and "ask_effectiveness in3 = Inr (eff, l # in5)"
  shows "fst (manual_log_session now inp st) = None
         \<and> session_log (snd (manual_log_session now inp st)) =
             session_log st @ [\<lparr>subject = subj, timestamp = now, task_type = task,
                                duration_mins = mins, effectiveness = Some eff\<rparr>]"
  using assms
  by (simp add: manual_log_session_def log_manual_session_def Let_def split: option.splits)

text \<open>
  Claim C2 at an input where the code departs from it. In a store with three entries, the
  replies Maths, 0 minutes, Essay, effectiveness 5 and no new confidence end the call
  without an exception and with a fourth entry, of 0 minutes.
\<close>

theorem zero_minutes_are_logged:
  "manual_log_session (20 * us_per_day) [''maths'', ''0'', ''Essay'', ''5'', ''''] ex_store
     = (None, ex_store\<lparr>session_log := session_log ex_store @
          [\<lparr>subject = ''Maths'', timestamp = 20 * us_per_day, task_type = ''Essay'',
            duration_mins = 0, effectiveness = Some 5\<rparr>]\<rparr>)
   \<and> length (session_log ex_store) = 3
   \<and> length (session_log (snd (manual_log_session (20 * us_per_day)
        [''maths'', ''0'', ''Essay'', ''5'', ''''] ex_store))) = 4"
  by code_simp

text \<open>
  Claim C3 as stated fails: with the reply 11 to the confidence prompt the call ends without
  an exception and the log has one entry more.
\<close>

theorem invalid_confidence_is_logged:
  "fst (manual_log_session (20 * us_per_day) [''maths'', ''30'', ''Essay'', ''5'', ''11''] ex_store)
     = None
   \<and> length (session_log ex_store) = 3
   \<and> length (session_log (snd (manual_log_session (20 * us_per_day)
        [''maths'', ''30'', ''Essay'', ''5'', ''11''] ex_store))) = 4"
  by code_simp

text \<open>
  Claim C3, as the code has it. When the reply to the confidence prompt of
  \<^verbatim>\<open>manual_log_session\<close> is an integer outside 1 to 10, the call raises nothing, the
  subjects and their stored confidence are unchanged, and the session entry is appended all the
  same.
\<close>

theorem invalid_confidence_is_ignored:
  assumes "ask_subject (subjects st) inp = Inr (subj, in1)"
    and "ask_int in1 = Inr (mins, task # in3)"
    and "ask_effectiveness in3 = Inr (eff, l # in5)"
    and "py_int (strip l) = Some v"
    and "v < 1 \<or> 10 < v"
  shows "manual_log_session now inp st =
           (None, st\<lparr>session_log := session_log st @
              [\<lparr>subject = subj, timestamp = now, task_type = task,
                duration_mins = mins, effectiveness = Some eff\<rparr>]\<rparr>)
         \<and> subjects (snd (manual_log_session now inp st)) = subjects st"
  using assms
  by (auto simp: manual_log_session_def log_manual_session_def Let_def py_int_def)

theorem invalid_confidence_is_ignored_witness:
  "ask_subject (subjects ex_store) [''irish'', ''45'', ''Flashcards'', ''7'', '' 0 '']
     = Inr (''Irish'', [''45'', ''Flashcards'', ''7'', '' 0 ''])
   \<and> ask_int [''45'', ''Flashcards'', ''7'', '' 0 ''] = Inr (45, [''Flashcards'', ''7'', '' 0 ''])
   \<and> ask_effectiveness [''7'', '' 0 ''] = Inr (7, ['' 0 ''])
   \<and> py_int (strip '' 0 '') = Some 0
   \<and> (0::int) < 1
   \<and> manual_log_session (20 * us_per_day) [''irish'', ''45'', ''Flashcards'', ''7'', '' 0 ''] ex_store =
        (None, ex_store\<lparr>session_log := session_log ex_store @
           [\<lparr>subject = ''Irish'', timestamp = 20 * us_per_day, task_type = ''Flashcards'',
             duration_mins = 45, effectiveness = Some 7\<rparr>]\<rparr>)
   \<and> subjects (snd (manual_log_session (20 * us_per_day)
        [''irish'', ''45'', ''Flashcards'', ''7'', '' 0 ''] ex_store)) = subjects ex_store"
proof -
  have h1: "ask_subject (subjects ex_store) [''irish'', ''45'', ''Flashcards'', ''7'', '' 0 '']
     = Inr (''Irish'', [''45'', ''Flashcards'', ''7'', '' 0 ''])" by code_simp
  have h2: "ask_int [''45'', ''Flashcards'', ''7'', '' 0 ''] = Inr (45, [''Flashcards'', ''7'', '' 0 ''])"
    by code_simp
  have h3: "ask_effectiveness [''7'', '' 0 ''] = Inr (7, ['' 0 ''])" by code_simp
  have h4: "py_int (strip '' 0 '') = Some 0" by code_simp
  have h5: "(0::int) < 1" by simp
  have h5': "(0::int) < 1 \<or> 10 < (0::int)" by simp
  from invalid_confidence_is_ignored[OF h1 h2 h3 h4 h5', of "20 * us_per_day"] h1 h2 h3 h4 h5
  show ?thesis by blast
qed

text \<open>The end of \<^verbatim>\<open>instant_mode\<close> has no such check: the reply 11 is stored as the
  confidence of the chosen subject, and a rating that is not an integer raises
  \<^verbatim>\<open>ValueError\<close> after the new confidence was stored and before the entry is appended.\<close>

lemma instant_mode_stores_any_confidence:
  "map_of (subjects (snd (instant_mode 20 (20 * us_per_day)
      [''30'', ''low'', ''yes'', ''yes'', ''7'', ''11''] ex_store))) ''Irish''
     = Some \<lparr>confidence = Some 11, exam_date = Some 60\<rparr>
   \<and> length (session_log (snd (instant_mode 20 (20 * us_per_day)
      [''30'', ''low'', ''yes'', ''yes'', ''7'', ''11''] ex_store))) = 4"
  by code_simp

lemma instant_mode_bad_rating_after_confidence:
  "fst (instant_mode 20 (20 * us_per_day)
      [''30'', ''low'', ''yes'', ''yes'', ''good'', ''4''] ex_store) = Inl ValueError
   \<and> map_of (subjects (snd (instant_mode 20 (20 * us_per_day)
      [''30'', ''low'', ''yes'', ''yes'', ''good'', ''4''] ex_store))) ''Irish''
     = Some \<lparr>confidence = Some 4, exam_date = Some 60\<rparr>
   \<and> length (session_log (snd (instant_mode 20 (20 * us_per_day)
      [''30'', ''low'', ''yes'', ''yes'', ''good'', ''4''] ex_store))) = 3"
  by code_simp

section \<open>Properties of the statistics\<close>

text \<open>The statistics hold each subject of the log once, with the number of its entries and
  the sums of their minutes and ratings; a subject is a key only if it has an entry, so
  every count is positive.\<close>

lemma subject_stats_snoc: "subject_stats (lg @ [e]) = add_session (subject_stats lg) e"
  by (simp add: subject_stats_def)

lemma map_of_add_session:
  "map_of (add_session acc e) =
     (map_of acc)(subject e \<mapsto>
        (let cur = (case map_of acc (subject e) of
                      None \<Rightarrow> \<lparr>count = 0, total_time = 0, total_rating = 0\<rparr> | Some s \<Rightarrow> s)
         in cur\<lparr>count := count cur + 1,
                total_time := total_time cur + duration_mins e,
                total_rating := total_rating cur + (case effectiveness e of None \<Rightarrow> 0 | Some r \<Rightarrow> r)\<rparr>))"
  by (simp add: add_session_def Let_def update_conv')

lemma distinct_subject_stats: "distinct (map fst (subject_stats lg))"
proof (induction lg rule: rev_induct)
  case Nil
  then show ?case by (simp add: subject_stats_def)
next
  case (snoc e lg)
  then show ?case
    by (simp add: subject_stats_snoc add_session_def Let_def distinct_update)
qed

lemma filter_other_subject:
  "subj \<notin> subject ` set lg \<Longrightarrow> filter (\<lambda>entry. subject entry = subj) lg = []"
  by (auto simp: filter_empty_conv)

lemma map_of_subject_stats:
  "map_of (subject_stats lg) subj =
     (if subj \<in> subject ` set lg then Some (stats_of lg subj) else None)"
proof (induction lg rule: rev_induct)
  case Nil
  then show ?case by (simp add: subject_stats_def)
next
  case (snoc e lg)
  show ?case
  proof (cases "subject e = subj")
    case False
    with snoc show ?thesis
      by (auto simp: subject_stats_snoc map_of_add_session stats_of_def)
  next
    case True
    show ?thesis
    proof (cases "subj \<in> subject ` set lg")
      case seen: True
      with snoc True show ?thesis
        by (simp add: subject_stats_snoc map_of_add_session stats_of_def Let_def)
    next
      case new: False
      from filter_other_subject[OF new] snoc True new show ?thesis
        by (simp add: subject_stats_snoc map_of_add_session stats_of_def Let_def)
    qed
  qed
qed

lemma subject_stats_item:
  assumes "item \<in> set (subject_stats lg)"
  shows "fst item \<in> subject ` set lg \<and> snd item = stats_of lg (fst item)"
proof -
  from assms have "(fst item, snd item) \<in> set (subject_stats lg)" by simp
  then have "map_of (subject_stats lg) (fst item) = Some (snd item)"
    using distinct_subject_stats[of lg] by (rule map_of_is_SomeI[rotated])
  then show ?thesis by (simp add: map_of_subject_stats split: if_splits)
qed

lemma subject_stats_count_pos:
  assumes "item \<in> set (subject_stats lg)"
  shows "0 < count (snd item)"
proof -
  from subject_stats_item[OF assms] obtain e where "e \<in> set lg" "subject e = fst item"
    and s: "snd item = stats_of lg (fst item)" by auto
  then have "filter (\<lambda>entry. subject entry = fst item) lg \<noteq> []"
    by (auto simp: filter_empty_conv)
  with s show ?thesis by (simp add: stats_of_def Let_def)
qed

lemma collect_all_Inr:
  "(\<And>x. x \<in> set xs \<Longrightarrow> f x = Inr (g x)) \<Longrightarrow> collect f xs = Inr (map g xs)"
  by (induction xs) simp_all

lemma cli_rows: "collect (summary_row cli_avg_rating) (subject_stats lg) = Inr (map avg_row (subject_stats lg))"
proof (rule collect_all_Inr)
  fix item assume "item \<in> set (subject_stats lg)"
  from subject_stats_count_pos[OF this]
  show "summary_row cli_avg_rating item = Inr (avg_row item)"
    by (simp add: summary_row_def cli_avg_rating_def truediv_def avg_row_def)
qed

lemma web_rows: "collect (summary_row web_avg_rating) (subject_stats lg) = Inr (map avg_row (subject_stats lg))"
proof (rule collect_all_Inr)
  fix item assume "item \<in> set (subject_stats lg)"
  from subject_stats_count_pos[OF this]
  show "summary_row web_avg_rating item = Inr (avg_row item)"
    by (simp add: summary_row_def web_avg_rating_def truediv_def avg_row_def)
qed

text \<open>
  Claim C8. For every session log the summary of either front end ends without an
  exception, so without a division by zero: its line for a subject gives the average
  \<open>total_rating / count\<close>, where every subject of the statistics has a positive count,
  the number of its entries, and the sum of their ratings. A subject without an entry is
  absent from the statistics.
\<close>

theorem average_never_divides_by_zero:
  "view_summary today lg =
     Inr (if lg = [] then None
          else Some (Summary (length lg) (sum_list (map duration_mins lg))
                 (map avg_row (subject_stats lg)) (cli_calculate_streak today (dates_studied lg))))
   \<and> web_dashboard today lg =
     Inr (if lg = [] then None
          else Some (Summary (length lg) (sum_list (map duration_mins lg))
                 (map avg_row (subject_stats lg)) (web_calculate_streak today (dates_studied lg))))
   \<and> (\<forall>item \<in> set (subject_stats lg).
         0 < count (snd item) \<and> snd item = stats_of lg (fst item))
   \<and> (map_of (subject_stats lg) subj = None) = (subj \<notin> subject ` set lg)"
  using subject_stats_count_pos[of _ lg] subject_stats_item[of _ lg]
  by (simp add: view_summary_def web_dashboard_def cli_rows web_rows map_of_subject_stats)

theorem average_never_divides_by_zero_witness:
  "(''Maths'', \<lparr>count = 3, total_time = 90, total_rating = 15\<rparr>)
      \<in> set (subject_stats (session_log ex_store))
   \<and> 0 < count (snd (''Maths'', \<lparr>count = 3, total_time = 90, total_rating = 15\<rparr>))
   \<and> snd (''Maths'', \<lparr>count = 3, total_time = 90, total_rating = 15\<rparr>)
       = stats_of (session_log ex_store) (fst (''Maths'', \<lparr>count = 3, total_time = 90, total_rating = 15\<rparr>))
   \<and> map avg_row (subject_stats (session_log ex_store)) = [(''Maths'', 3, 90, 5)]
   \<and> view_summary 20 (session_log ex_store) =
       Inr (Some (Summary 3 90 (map avg_row (subject_stats (session_log ex_store))) 0))
   \<and> map_of (subject_stats (session_log ex_store)) ''Irish'' = None"
proof -
  let ?lg = "session_log ex_store"
  let ?item = "(''Maths'', \<lparr>count = 3, total_time = 90, total_rating = 15\<rparr>)"
  have h1: "?item \<in> set (subject_stats ?lg)" by code_simp
  have h2: "map avg_row (subject_stats ?lg) = [(''Maths'', 3, 90, 5)]" by code_simp
  have h3: "?lg \<noteq> []" by code_simp
  have h4: "length ?lg = 3" by code_simp
  have h5: "sum_list (map duration_mins ?lg) = 90" by code_simp
  have h6: "cli_calculate_streak 20 (dates_studied ?lg) = 0" by code_simp
  have h7: "''Irish'' \<notin> subject ` set ?lg" by code_simp
  note t = average_never_divides_by_zero[of 20 ?lg "''Irish''"]
  from t h1 have c1: "0 < count (snd ?item) \<and> snd ?item = stats_of ?lg (fst ?item)" by blast
  from t h3 h4 h5 h6 have c2: "view_summary 20 ?lg =
       Inr (Some (Summary 3 90 (map avg_row (subject_stats ?lg)) 0))" by simp
  from t h7 have c3: "map_of (subject_stats ?lg) ''Irish'' = None" by blast
  from h1 h2 c1 c2 c3 show ?thesis by blast
qed

end
